theory Spec2Isabelle
  imports Main "HOL-Library.Sublist"
begin

section \<open>Python strings\<close>

text \<open>
  A Python \<open>str\<close> is modelled as a \<open>string\<close>, a list of characters. Isabelle's \<open>char\<close>
  covers the code points 0 to 255; code points above 255 are outside the model. On this
  range the character classes below are those of Python 3: \<open>\s\<close> and \<open>str.strip()\<close> use
  \<open>is_space\<close>, \<open>\w\<close> (and so \<open>\b\<close>) uses \<open>is_word\<close>, \<open>str.lower()\<close> is \<open>lower\<close>.
\<close>

definition code_point :: "char \<Rightarrow> nat" where
  "code_point c = of_char c"

definition is_space :: "char \<Rightarrow> bool" where
  "is_space c = (let n = code_point c in
     (9 \<le> n \<and> n \<le> 13) \<or> (28 \<le> n \<and> n \<le> 32) \<or> n = 133 \<or> n = 160)"

definition is_digit :: "char \<Rightarrow> bool" where
  "is_digit c = (let n = code_point c in 48 \<le> n \<and> n \<le> 57)"

definition is_ascii_lower :: "char \<Rightarrow> bool" where
  "is_ascii_lower c = (let n = code_point c in 97 \<le> n \<and> n \<le> 122)"

definition is_ascii_upper :: "char \<Rightarrow> bool" where
  "is_ascii_upper c = (let n = code_point c in 65 \<le> n \<and> n \<le> 90)"

definition is_upper :: "char \<Rightarrow> bool" where
  "is_upper c = (let n = code_point c in
     (65 \<le> n \<and> n \<le> 90) \<or> (192 \<le> n \<and> n \<le> 222 \<and> n \<noteq> 215))"

definition is_word :: "char \<Rightarrow> bool" where
  "is_word c = (let n = code_point c in
     is_digit c \<or> is_ascii_lower c \<or> is_ascii_upper c \<or> n = 95 \<or>
     n = 170 \<or> n = 178 \<or> n = 179 \<or> n = 181 \<or> n = 185 \<or> n = 186 \<or>
     (188 \<le> n \<and> n \<le> 190) \<or> (192 \<le> n \<and> n \<noteq> 215 \<and> n \<noteq> 247))"

definition lower_char :: "char \<Rightarrow> char" where
  "lower_char c = (if is_upper c then char_of (code_point c + 32) else c)"

definition lower :: "string \<Rightarrow> string" where
  "lower s = map lower_char s"

text \<open>\<open>sub in s\<close> for strings.\<close>

fun py_in :: "string \<Rightarrow> string \<Rightarrow> bool" where
  "py_in sub [] = (sub = [])"
| "py_in sub (c # cs) = (prefix sub (c # cs) \<or> py_in sub cs)"

text \<open>\<open>s.split('\n')\<close> and \<open>sep.join(xs)\<close>.\<close>

definition nl :: char where
  "nl = CHR 0x0A"

fun split_nl :: "string \<Rightarrow> string list" where
  "split_nl [] = [[]]"
| "split_nl (c # cs) =
     (if c = nl then [] # split_nl cs
      else (case split_nl cs of
              l # ls \<Rightarrow> (c # l) # ls
            | [] \<Rightarrow> [[c]]))"

fun join :: "string \<Rightarrow> string list \<Rightarrow> string" where
  "join sep [] = []"
| "join sep [x] = x"
| "join sep (x # y # ys) = x @ sep @ join sep (y # ys)"

definition join_nl :: "string list \<Rightarrow> string" where
  "join_nl ls = join [nl] ls"

text \<open>\<open>s.strip()\<close>, \<open>s.strip('-')\<close> and \<open>str(n)\<close> for a line number.\<close>

definition strip_with :: "(char \<Rightarrow> bool) \<Rightarrow> string \<Rightarrow> string" where
  "strip_with p s = rev (dropWhile p (rev (dropWhile p s)))"

definition strip :: "string \<Rightarrow> string" where
  "strip s = strip_with is_space s"

definition is_hyphen :: "char \<Rightarrow> bool" where
  "is_hyphen c = (c = CHR ''-'')"

definition strip_hyphens :: "string \<Rightarrow> string" where
  "strip_hyphens s = strip_with is_hyphen s"

definition digit_char :: "nat \<Rightarrow> char" where
  "digit_char d = char_of (48 + d)"

fun str_nat_fuel :: "nat \<Rightarrow> nat \<Rightarrow> string" where
  "str_nat_fuel 0 n = []"
| "str_nat_fuel (Suc k) n =
     (if n < 10 then [digit_char n]
      else str_nat_fuel k (n div 10) @ [digit_char (n mod 10)])"

definition str_nat :: "nat \<Rightarrow> string" where
  "str_nat n = str_nat_fuel (Suc n) n"

section \<open>Regular expressions of the scripts\<close>

text \<open>
  \<open>re.search\<close> tries every start position from the left and returns the first match.
  A matcher gets the character before the start position (for \<open>\b\<close>) and the rest of the
  text; it returns what the match yields. The search returns the start position with it.
\<close>

fun re_search :: "(char option \<Rightarrow> string \<Rightarrow> 'a option) \<Rightarrow> char option \<Rightarrow> nat \<Rightarrow> string
    \<Rightarrow> (nat \<times> 'a) option" where
  "re_search m prev pos [] = map_option (Pair pos) (m prev [])"
| "re_search m prev pos (c # cs) =
     (case m prev (c # cs) of
        Some r \<Rightarrow> Some (pos, r)
      | None \<Rightarrow> re_search m (Some c) (Suc pos) cs)"

text \<open>\<open>\b\<close> in front of a word character: the character before is not a word character.\<close>

definition word_start :: "char option \<Rightarrow> bool" where
  "word_start prev = (case prev of None \<Rightarrow> True | Some c \<Rightarrow> \<not> is_word c)"

definition is_quote :: "char \<Rightarrow> bool" where
  "is_quote c = (c = CHR 0x22 \<or> c = CHR 0x27)"

text \<open>
  \<open>\s*=\<close> at the start of the text: the number of characters it takes, if it matches.
  The greedy \<open>\s*\<close> never has to give characters back, since a space is not \<open>=\<close>.
\<close>

definition m_eq :: "string \<Rightarrow> nat option" where
  "m_eq s =
     (case dropWhile is_space s of
        [] \<Rightarrow> None
      | e # _ \<Rightarrow> if e = CHR ''='' then Some (Suc (length (takeWhile is_space s))) else None)"

text \<open>
  \<open>\s*=\s*["\']([^"\']+)["\']\<close> at the start of the text: group 1 and the length matched.
\<close>

definition m_quoted :: "string \<Rightarrow> (string \<times> nat) option" where
  "m_quoted s =
     (case m_eq s of
        None \<Rightarrow> None
      | Some n \<Rightarrow>
          (let s2 = drop n s; k = length (takeWhile is_space s2) in
           case drop k s2 of
             [] \<Rightarrow> None
           | q # s3 \<Rightarrow>
               if \<not> is_quote q then None
               else (let v = takeWhile (\<lambda>c. \<not> is_quote c) s3 in
                     if v = [] then None
                     else (case drop (length v) s3 of
                             [] \<Rightarrow> None
                           | _ # _ \<Rightarrow> Some (v, n + k + 1 + length v + 1)))))"

text \<open>\<open>\bKEY\s*=\<close>, for the keys \<open>id\<close>, \<open>name\<close> and \<open>autocomplete\<close>.\<close>

definition m_has_attr :: "string \<Rightarrow> char option \<Rightarrow> string \<Rightarrow> unit option" where
  "m_has_attr key prev s =
     (if word_start prev \<and> prefix key s
      then map_option (\<lambda>_. ()) (m_eq (drop (length key) s)) else None)"

definition has_attr :: "string \<Rightarrow> string \<Rightarrow> bool" where
  "has_attr key s = (re_search (m_has_attr key) None 0 s \<noteq> None)"

text \<open>\<open>KEY\s*=\s*["\']([^"\']+)["\']\<close> without \<open>\b\<close>, for \<open>type\<close>, \<open>placeholder\<close>, \<open>class\<close>.\<close>

definition m_attr_value :: "string \<Rightarrow> char option \<Rightarrow> string \<Rightarrow> (string \<times> nat) option" where
  "m_attr_value key prev s =
     (if prefix key s
      then map_option (\<lambda>(v, n). (v, length key + n)) (m_quoted (drop (length key) s))
      else None)"

definition attr_value :: "string \<Rightarrow> string \<Rightarrow> string option" where
  "attr_value key s = map_option (\<lambda>(p, v, n). v) (re_search (m_attr_value key) None 0 s)"

text \<open>\<open>\bid\s*=\s*["\']([^"\']+)["\']\<close>: group 1 and \<open>match.end()\<close>.\<close>

definition m_id_value :: "char option \<Rightarrow> string \<Rightarrow> (string \<times> nat) option" where
  "m_id_value prev s = (if word_start prev then m_attr_value ''id'' prev s else None)"

definition search_id_value :: "string \<Rightarrow> (string \<times> nat) option" where
  "search_id_value s = map_option (\<lambda>(p, v, n). (v, p + n)) (re_search m_id_value None 0 s)"

text \<open>\<open>(<input)(\s+)\<close> and \<open><input\s*\<close>: \<open>match.end()\<close>.\<close>

definition m_input_ws :: "bool \<Rightarrow> char option \<Rightarrow> string \<Rightarrow> nat option" where
  "m_input_ws need_space prev s =
     (if prefix ''<input'' s
      then (let k = length (takeWhile is_space (drop 6 s)) in
            if need_space \<and> k = 0 then None else Some (6 + k))
      else None)"

definition search_input_ws :: "bool \<Rightarrow> string \<Rightarrow> nat option" where
  "search_input_ws need_space s =
     map_option (\<lambda>(p, n). p + n) (re_search (m_input_ws need_space) None 0 s)"

text \<open>
  \<open>bind:(?:value|checked)\s*=\s*\{([^}]+)\}\<close> (\<open>with_checked\<close>) and
  \<open>bind:value\s*=\s*\{([^}]+)\}\<close>: group 1.
\<close>

definition m_braced :: "string \<Rightarrow> string option" where
  "m_braced s =
     (case m_eq s of
        None \<Rightarrow> None
      | Some n \<Rightarrow>
          (case dropWhile is_space (drop n s) of
             [] \<Rightarrow> None
           | b # s3 \<Rightarrow>
               if b \<noteq> CHR ''{'' then None
               else (let v = takeWhile (\<lambda>c. c \<noteq> CHR ''}'') s3 in
                     if v = [] then None
                     else (case drop (length v) s3 of
                             [] \<Rightarrow> None
                           | _ # _ \<Rightarrow> Some v))))"

definition m_bind :: "bool \<Rightarrow> char option \<Rightarrow> string \<Rightarrow> string option" where
  "m_bind with_checked prev s =
     (if prefix ''bind:value'' s then m_braced (drop 10 s)
      else if with_checked \<and> prefix ''bind:checked'' s then m_braced (drop 12 s)
      else None)"

definition search_bind :: "bool \<Rightarrow> string \<Rightarrow> string option" where
  "search_bind with_checked s = map_option snd (re_search (m_bind with_checked) None 0 s)"

section \<open>The autocomplete resolver (final_comprehensive_fix.py)\<close>

definition AUTOCOMPLETE_MAP_text :: "(string \<times> string) list" where
  "AUTOCOMPLETE_MAP_text =
     [(''username'', ''username''), (''name'', ''name''), (''first'', ''given-name''),
      (''last'', ''family-name''), (''phone'', ''tel''), (''address'', ''street-address''),
      (''city'', ''address-level2''), (''state'', ''address-level1''),
      (''zip'', ''postal-code''), (''country'', ''country-name'')]"

fun first_key_in :: "(string \<times> string) list \<Rightarrow> string \<Rightarrow> string" where
  "first_key_in [] id_lower = []"
| "first_key_in ((key, v) # kvs) id_lower =
     (if py_in key id_lower then v else first_key_in kvs id_lower)"

definition get_autocomplete_value :: "string \<Rightarrow> string \<Rightarrow> string \<Rightarrow> string" where
  "get_autocomplete_value input_tag input_type id_val =
     (if input_type = ''password'' then
        (if py_in ''new'' (lower input_tag) \<or> py_in ''confirm'' (lower input_tag)
         then ''new-password'' else ''current-password'')
      else if input_type = ''email'' then ''email''
      else if input_type = ''tel'' then ''tel''
      else if input_type = ''text'' then first_key_in AUTOCOMPLETE_MAP_text (lower id_val)
      else [])"

section \<open>Literal and character-class substitution\<close>

text \<open>
  \<open>s.replace(pat, rep)\<close> and \<open>re.sub\<close> of a literal pattern: the occurrences of a
  non-empty \<open>pat\<close> are replaced from the left, without overlap.
\<close>

function replace_all :: "string \<Rightarrow> string \<Rightarrow> string \<Rightarrow> string" where
  "replace_all pat rep [] = []"
| "replace_all pat rep (c # cs) =
     (if pat \<noteq> [] \<and> prefix pat (c # cs)
      then rep @ replace_all pat rep (drop (length pat) (c # cs))
      else c # replace_all pat rep cs)"
  by pat_completeness auto
termination
  by (relation "measure (\<lambda>(pat, rep, s). length s)") (auto simp: neq_Nil_conv)

text \<open>
  \<open>re.sub(r'C+', '-', s)\<close> for a character class \<open>C\<close>: every maximal run of characters of
  the class becomes one hyphen.
\<close>

fun sub_runs :: "(char \<Rightarrow> bool) \<Rightarrow> string \<Rightarrow> string" where
  "sub_runs p [] = []"
| "sub_runs p [c] = [if p c then CHR ''-'' else c]"
| "sub_runs p (c # d # cs) =
     (if p c then (if p d then sub_runs p (d # cs) else CHR ''-'' # sub_runs p (d # cs))
      else c # sub_runs p (d # cs))"

definition is_alnum_ascii :: "char \<Rightarrow> bool" where
  "is_alnum_ascii c = (is_ascii_lower c \<or> is_ascii_upper c \<or> is_digit c)"

definition is_lower_or_digit :: "char \<Rightarrow> bool" where
  "is_lower_or_digit c = (is_ascii_lower c \<or> is_digit c)"

section \<open>The identifier synthesizers\<close>

definition input_type_of :: "string \<Rightarrow> string" where
  "input_type_of input_tag =
     (case attr_value ''type'' input_tag of Some t \<Rightarrow> t | None \<Rightarrow> ''text'')"

definition or_empty :: "string option \<Rightarrow> string" where
  "or_empty m = (case m of Some v \<Rightarrow> v | None \<Rightarrow> [])"

text \<open>
  comprehensive_fix.py, \<open>generate_smart_id\<close>. The arguments \<open>parent_dir\<close> and \<open>file_name\<close>
  stand for \<open>Path(file_path).parent.name\<close> and \<open>Path(file_path).stem\<close>, which the
  function computes with the standard library and uses in no other way.
\<close>

definition generate_smart_id :: "string \<Rightarrow> string \<Rightarrow> string \<Rightarrow> nat \<Rightarrow> string \<times> string" where
  "generate_smart_id input_tag parent_dir file_name line_num =
     (let input_type = input_type_of input_tag;
          placeholder = or_empty (attr_value ''placeholder'' input_tag);
          bind_var = strip (or_empty (search_bind True input_tag));
          class_name = or_empty (attr_value ''class'' input_tag);
          ctx_parts =
            (if parent_dir \<in> set [''blog'', ''courses'', ''products'', ''videos'', ''boards'']
             then [parent_dir]
             else if file_name \<notin> set [''page'', ''layout'', ''index'']
             then [filter (\<lambda>c. c \<noteq> CHR ''+'') file_name]
             else []);
          sem_parts =
            (if bind_var \<noteq> [] then
               [strip_hyphens (sub_runs is_hyphen
                  (map (\<lambda>c. if is_alnum_ascii c then c else CHR ''-'') bind_var))]
             else if placeholder \<noteq> [] then
               (let clean_ph = strip_hyphens
                      (sub_runs (\<lambda>c. \<not> is_lower_or_digit c) (take 30 (lower placeholder)))
                in if clean_ph \<noteq> [] then [clean_ph] else [])
             else
               (if py_in ''search'' (lower class_name) \<or> py_in ''search'' (lower input_tag)
                then [''search'']
                else if py_in ''filter'' (lower class_name) then [''filter'']
                else if py_in ''select'' (lower class_name) then [''select'']
                else []) @ [input_type]);
          id_parts = ctx_parts @ sem_parts;
          id_parts = (if id_parts = [] then [input_type, str_nat line_num] else id_parts);
          final_id = take 50 (sub_runs is_hyphen (lower (join ''-'' id_parts)))
      in (final_id, final_id))"

text \<open>
  batch_fix_inputs.py, \<open>generate_id_from_context\<close>. The third argument (the file's
  content) is not used by the function.
\<close>

definition generate_id_from_context :: "string \<Rightarrow> nat \<Rightarrow> string \<Rightarrow> string \<times> string" where
  "generate_id_from_context input_tag line_num file_context =
     (let input_type = input_type_of input_tag;
          placeholder = or_empty (attr_value ''placeholder'' input_tag);
          bind_var = or_empty (search_bind False input_tag);
          class_name = or_empty (attr_value ''class'' input_tag);
          n = str_nat line_num;
          id_name =
            (if bind_var \<noteq> [] then
               ''input-'' @ replace_all '']'' [] (replace_all ''['' ''-''
                              (replace_all ''.'' ''-'' (strip bind_var)))
             else if placeholder \<noteq> [] then
               ''input-'' @ take 30 (replace_all ''...'' []
                              (replace_all '' '' ''-'' (lower placeholder)))
             else if py_in ''search'' (lower class_name) \<or> py_in ''search'' (lower input_tag)
             then ''search-input-'' @ n
             else if py_in ''checkbox'' input_type then ''checkbox-'' @ n
             else if py_in ''radio'' input_type then ''radio-'' @ n
             else if py_in ''date'' input_type then ''date-input-'' @ n
             else input_type @ ''-input-'' @ n);
          id_name = filter (\<lambda>c. is_lower_or_digit c \<or> is_hyphen c) (lower id_name);
          id_name = sub_runs is_hyphen id_name;
          id_name = strip_hyphens id_name
      in (id_name, id_name))"

section \<open>The tag splicers\<close>

definition dq :: string where
  "dq = [CHR 0x22]"

definition attr_token :: "string \<Rightarrow> string \<Rightarrow> string" where
  "attr_token key v = key @ ''='' @ dq @ v @ dq"

definition splice :: "nat \<Rightarrow> string \<Rightarrow> string \<Rightarrow> string" where
  "splice pos ins s = take pos s @ ins @ drop pos s"

text \<open>batch_fix_inputs.py, \<open>fix_input_tag\<close>.\<close>

definition batch_fix_input_tag :: "string \<Rightarrow> string \<Rightarrow> string \<Rightarrow> string" where
  "batch_fix_input_tag input_tag id_name name_attr =
     (let has_id = has_attr ''id'' input_tag;
          has_name = has_attr ''name'' input_tag
      in if has_id \<and> has_name then input_tag
         else
           (let m = (case search_input_ws True input_tag of
                       Some e \<Rightarrow> Some e
                     | None \<Rightarrow> search_input_ws False input_tag)
            in case m of
                 Some insert_pos \<Rightarrow>
                   (let attrs_to_add =
                          (if \<not> has_id then [attr_token ''id'' id_name] else []) @
                          (if \<not> has_name then [attr_token ''name'' name_attr] else []);
                        attrs_str = join '' '' attrs_to_add @ '' ''
                    in splice insert_pos attrs_str input_tag)
               | None \<Rightarrow> input_tag))"

text \<open>
  final_comprehensive_fix.py, \<open>fix_input_tag\<close>. The arguments \<open>file_path\<close> and
  \<open>line_num\<close> are not used by the function.
\<close>

definition final_attrs_to_add :: "string \<Rightarrow> string list" where
  "final_attrs_to_add input_tag =
     (let has_id = search_id_value input_tag;
          has_name = has_attr ''name'' input_tag;
          has_autocomplete = has_attr ''autocomplete'' input_tag;
          input_type = input_type_of input_tag;
          id_val = (case has_id of Some (v, e) \<Rightarrow> v | None \<Rightarrow> [])
      in (if \<not> has_name \<and> id_val \<noteq> [] then [attr_token ''name'' id_val] else []) @
         (if \<not> has_autocomplete \<and> input_type \<in> set [''password'', ''email'', ''tel'']
          then (let autocomplete_val = get_autocomplete_value input_tag input_type id_val
                in if autocomplete_val \<noteq> [] then [attr_token ''autocomplete'' autocomplete_val]
                   else [])
          else []))"

definition final_fix_input_tag :: "string \<Rightarrow> string" where
  "final_fix_input_tag input_tag =
     (if py_in ''hidden'' input_tag then input_tag
      else
        (let attrs_to_add = final_attrs_to_add input_tag
         in if attrs_to_add = [] then input_tag
            else
              (case search_id_value input_tag of
                 Some (v, insert_pos) \<Rightarrow>
                   splice insert_pos ('' '' @ join '' '' attrs_to_add) input_tag
               | None \<Rightarrow>
                   (case search_input_ws True input_tag of
                      Some e \<Rightarrow> splice e (join '' '' attrs_to_add @ '' '') input_tag
                    | None \<Rightarrow> input_tag))))"

section \<open>The tag reassembler\<close>

text \<open>
  enhanced_scan.py and batch_fix_inputs.py grow a string, \<open>input_tag += '\n' + lines[i]\<close>
  (\<open>sep\<close> is the newline); fix_form_fields.py reads the file with \<open>readlines()\<close>, so its
  lines keep their line ends and it appends \<open>lines[i]\<close> alone (\<open>sep\<close> is empty). The result
  is the index of the last line taken and the tag text.
\<close>

function collect_tag :: "string \<Rightarrow> string list \<Rightarrow> nat \<Rightarrow> string \<Rightarrow> nat \<times> string" where
  "collect_tag sep lines i input_tag =
     (if \<not> py_in ''>'' input_tag \<and> i + 1 < length lines
      then collect_tag sep lines (i + 1) (input_tag @ sep @ lines ! (i + 1))
      else (i, input_tag))"
  by pat_completeness auto
termination
  by (relation "measure (\<lambda>(sep, lines, i, t). length lines - i)") auto

declare collect_tag.simps [simp del]

text \<open>
  comprehensive_fix.py and final_comprehensive_fix.py grow a list of lines and test
  \<open>'>' not in ''.join(input_lines)\<close>.
\<close>

function collect_lines :: "string list \<Rightarrow> nat \<Rightarrow> string list \<Rightarrow> nat \<times> string list" where
  "collect_lines lines i input_lines =
     (if \<not> py_in ''>'' (concat input_lines) \<and> i + 1 < length lines
      then collect_lines lines (i + 1) (input_lines @ [lines ! (i + 1)])
      else (i, input_lines))"
  by pat_completeness auto
termination
  by (relation "measure (\<lambda>(lines, i, ls). length lines - i)") auto

declare collect_lines.simps [simp del]

text \<open>
  The scanners record \<open>line_start = i + 1\<close> before the loop; \<open>reassemble\<close> gives the
  starting line number, the tag text and the index of the last line taken.
\<close>

definition reassemble_scan :: "string \<Rightarrow> string list \<Rightarrow> nat \<Rightarrow> nat \<times> string \<times> nat" where
  "reassemble_scan sep lines i =
     (let line_start = i + 1;
          (i2, input_tag) = collect_tag sep lines i (lines ! i)
      in (line_start, input_tag, i2))"

definition reassemble_fix :: "string list \<Rightarrow> nat \<Rightarrow> nat \<times> string \<times> nat" where
  "reassemble_fix lines i =
     (let input_start = i;
          (i2, input_lines) = collect_lines lines i [lines ! i]
      in (input_start + 1, join_nl input_lines, i2))"

section \<open>The patch transformations\<close>

text \<open>
  \<open>for j, fixed_line in enumerate(fixed_lines): if input_start + j < len(lines):
  lines[input_start + j] = fixed_line\<close>
\<close>

fun overwrite :: "string list \<Rightarrow> nat \<Rightarrow> string list \<Rightarrow> string list" where
  "overwrite lines k [] = lines"
| "overwrite lines k (f # fs) =
     overwrite (if k < length lines then lines[k := f] else lines) (Suc k) fs"

lemma length_overwrite [simp]: "length (overwrite lines k fs) = length lines"
  by (induction fs arbitrary: lines k) auto

lemma collect_lines_ge: "i \<le> fst (collect_lines lines i ls)"
proof (induction lines i ls rule: collect_lines.induct)
  case (1 lines i input_lines)
  show ?case
  proof (cases "\<not> py_in ''>'' (concat input_lines) \<and> i + 1 < length lines")
    case True
    with 1 show ?thesis by (subst collect_lines.simps) auto
  next
    case False
    then show ?thesis by (subst collect_lines.simps) auto
  qed
qed

lemma collect_tag_ge: "i \<le> fst (collect_tag sep lines i t)"
proof (induction sep lines i t rule: collect_tag.induct)
  case (1 sep lines i input_tag)
  show ?case
  proof (cases "\<not> py_in ''>'' input_tag \<and> i + 1 < length lines")
    case True
    with 1 show ?thesis by (subst collect_tag.simps) auto
  next
    case False
    then show ?thesis by (subst collect_tag.simps) auto
  qed
qed

subsection \<open>comprehensive_fix.py\<close>

text \<open>
  The body of the loop of \<open>fix_input_in_content\<close> from the hidden test on: the patched tag
  text when the tag is patched, \<open>None\<close> when the tag is left alone.
\<close>

definition comp_fix_tag :: "string \<Rightarrow> string \<Rightarrow> string \<Rightarrow> nat \<Rightarrow> string option" where
  "comp_fix_tag full_input parent_dir file_name line_num =
     (if py_in ''hidden'' full_input then None
      else if \<not> has_attr ''id'' full_input \<and> \<not> has_attr ''name'' full_input then
        (let (id_val, name_val) = generate_smart_id full_input parent_dir file_name line_num
         in case search_input_ws True full_input of
              Some e \<Rightarrow>
                Some (splice e (attr_token ''id'' id_val @ '' '' @
                                attr_token ''name'' name_val @ '' '') full_input)
            | None \<Rightarrow> None)
      else None)"

function comp_loop :: "string \<Rightarrow> string \<Rightarrow> string list \<Rightarrow> nat \<Rightarrow> nat \<Rightarrow> string list \<times> nat" where
  "comp_loop parent_dir file_name lines i fixed_count =
     (if i < length lines then
        (if py_in ''<input'' (lines ! i) then
           (let r = reassemble_fix lines i;
                line_num = fst r; full_input = fst (snd r); i2 = snd (snd r)
            in case comp_fix_tag full_input parent_dir file_name line_num of
                 Some fixed_input \<Rightarrow>
                   comp_loop parent_dir file_name
                     (overwrite lines i (split_nl fixed_input)) (i2 + 1) (fixed_count + 1)
               | None \<Rightarrow> comp_loop parent_dir file_name lines (i2 + 1) fixed_count)
         else comp_loop parent_dir file_name lines (i + 1) fixed_count)
      else (lines, fixed_count))"
  by pat_completeness auto

lemma reassemble_fix_ge: "i \<le> snd (snd (reassemble_fix lines i))"
  using collect_lines_ge [of i lines "[lines ! i]"]
  by (auto simp: reassemble_fix_def split: prod.splits)

lemma reassemble_fix_measure [simp]:
  "i < length lines \<Longrightarrow> length lines - Suc (snd (snd (reassemble_fix lines i))) < length lines - i"
  using reassemble_fix_ge [of i lines] by arith

termination comp_loop
  by (relation "measure (\<lambda>(pd, fn, lines, i, n). length lines - i)") auto

declare comp_loop.simps [simp del]

definition fix_input_in_content :: "string \<Rightarrow> string \<Rightarrow> string \<Rightarrow> string \<times> nat" where
  "fix_input_in_content content parent_dir file_name =
     (let (lines, fixed_count) = comp_loop parent_dir file_name (split_nl content) 0 0
      in (join_nl lines, fixed_count))"

subsection \<open>final_comprehensive_fix.py\<close>

function final_loop :: "string list \<Rightarrow> nat \<Rightarrow> nat \<Rightarrow> string list \<times> nat" where
  "final_loop lines i fixed_count =
     (if i < length lines then
        (if py_in ''<input'' (lines ! i) then
           (let r = reassemble_fix lines i;
                full_input = fst (snd r); i2 = snd (snd r);
                fixed_input = final_fix_input_tag full_input
            in if fixed_input \<noteq> full_input
               then final_loop (overwrite lines i (split_nl fixed_input)) (i2 + 1)
                      (fixed_count + 1)
               else final_loop lines (i2 + 1) fixed_count)
         else final_loop lines (i + 1) fixed_count)
      else (lines, fixed_count))"
  by pat_completeness auto
termination
  by (relation "measure (\<lambda>(lines, i, n). length lines - i)") auto

declare final_loop.simps [simp del]

definition final_fix_content :: "string \<Rightarrow> string \<times> nat" where
  "final_fix_content content =
     (let (lines, fixed_count) = final_loop (split_nl content) 0 0
      in (join_nl lines, fixed_count))"

subsection \<open>batch_fix_inputs.py\<close>

text \<open>
  \<open>for j, tag_line in enumerate(tag_lines): if start_line + j < len(new_lines):
  new_lines[start_line + j] = tag_line else: new_lines.append(tag_line)\<close>
\<close>

fun place :: "string list \<Rightarrow> nat \<Rightarrow> string list \<Rightarrow> string list" where
  "place new_lines k [] = new_lines"
| "place new_lines k (t # ts) =
     place (if k < length new_lines then new_lines[k := t] else new_lines @ [t]) (Suc k) ts"

text \<open>
  The loop of \<open>fix_file\<close>. Its state is \<open>i\<close>, \<open>new_lines\<close>, \<open>fixed_count\<close> and the lines it
  prints, each as the line number and the identifier added.
\<close>

function batch_loop :: "string \<Rightarrow> string list \<Rightarrow> nat \<Rightarrow> string list \<Rightarrow> nat \<Rightarrow> (nat \<times> string) list
    \<Rightarrow> string list \<times> nat \<times> (nat \<times> string) list" where
  "batch_loop content lines i new_lines fixed_count out =
     (if i < length lines then
        (if py_in ''<input'' (lines ! i) \<and> \<not> py_in ''hidden'' (lines ! i) then
           (let r = reassemble_scan [nl] lines i;
                line_num = fst r; input_tag = fst (snd r); i2 = snd (snd r)
            in if \<not> has_attr ''id'' input_tag \<and> \<not> has_attr ''name'' input_tag then
                 (let ids = generate_id_from_context input_tag line_num content;
                      fixed_tag = batch_fix_input_tag input_tag (fst ids) (snd ids)
                  in if fixed_tag \<noteq> input_tag then
                       (let tag_lines = split_nl fixed_tag
                        in batch_loop content lines (i + length tag_lines - 1 + 1)
                             (place new_lines i tag_lines) (fixed_count + 1)
                             (out @ [(line_num, fst ids)]))
                     else batch_loop content lines (i2 + 1) (new_lines @ [lines ! i])
                            fixed_count out)
               else batch_loop content lines (i2 + 1) (new_lines @ [lines ! i])
                      fixed_count out)
         else batch_loop content lines (i + 1) (new_lines @ [lines ! i]) fixed_count out)
      else (new_lines, fixed_count, out))"
  by pat_completeness auto

lemma reassemble_scan_ge: "i \<le> snd (snd (reassemble_scan sep lines i))"
  using collect_tag_ge [of i sep lines "lines ! i"]
  by (auto simp: reassemble_scan_def split: prod.splits)

lemma reassemble_scan_measure [simp]:
  "i < length lines \<Longrightarrow>
   length lines - Suc (snd (snd (reassemble_scan sep lines i))) < length lines - i"
  using reassemble_scan_ge [of i sep lines] by arith

lemma split_nl_not_Nil [simp]: "split_nl s \<noteq> []"
  by (induction s) (auto split: list.splits)

lemma length_split_nl_pos [simp]: "0 < length (split_nl s)"
  by (cases "split_nl s") auto

lemma split_nl_measure [simp]:
  "i < length lines \<Longrightarrow> length lines - (i + length (split_nl s)) < length lines - i"
  using length_split_nl_pos [of s] by arith

termination batch_loop
  by (relation "measure (\<lambda>(c, lines, i, nls, n, out). length lines - i)") auto

declare batch_loop.simps [simp del]

text \<open>What \<open>fix_file\<close> computes from the content it read: the text it would write, the count
  and the printed lines.\<close>

definition batch_fix_content :: "string \<Rightarrow> string \<times> nat \<times> (nat \<times> string) list" where
  "batch_fix_content content =
     (let (new_lines, fixed_count, out) = batch_loop content (split_nl content) 0 [] 0 []
      in (join_nl new_lines, fixed_count, out))"

section \<open>Files and the drivers\<close>

text \<open>
  The file system maps a path to a node. Reading an absent path raises
  \<open>FileNotFoundError\<close>; a \<open>Broken\<close> node raises its exception on \<open>open\<close> or on decoding
  (no permission, bytes that are not UTF-8); writing a file that is not writable raises
  \<open>PermissionError\<close>. A failed \<open>open\<close> leaves the file system as it was. Console output
  is a list of events.
\<close>

datatype io_error = FileNotFoundError | PermissionError | UnicodeDecodeError

datatype node = File (file_text: string) (file_writable: bool) | Broken io_error

type_synonym fs = "string \<Rightarrow> node option"

definition read_file :: "fs \<Rightarrow> string \<Rightarrow> io_error + string" where
  "read_file fs path =
     (case fs path of
        None \<Rightarrow> Inl FileNotFoundError
      | Some (Broken e) \<Rightarrow> Inl e
      | Some (File c w) \<Rightarrow> Inr c)"

definition write_file :: "fs \<Rightarrow> string \<Rightarrow> string \<Rightarrow> io_error + fs" where
  "write_file fs path text =
     (case fs path of
        None \<Rightarrow> Inr (fs(path \<mapsto> File text True))
      | Some (Broken e) \<Rightarrow> Inl e
      | Some (File c w) \<Rightarrow> if w then Inr (fs(path \<mapsto> File text w)) else Inl PermissionError)"


datatype event =
    Fixed string nat
  | ErrorProcessing string io_error
  | LineAdded nat string
  | FileHeader string
  | FixedInputs nat
  | NotFound string

text \<open>
  A file handed to comprehensive_fix.py: its path, and the directory name and stem that
  \<open>generate_smart_id\<close> takes from the path.
\<close>

record src_file =
  src_path :: string
  src_parent_dir :: string
  src_stem :: string

text \<open>comprehensive_fix.py, \<open>process_file\<close>: the \<open>try\<close> block, then the function.\<close>

definition comp_process_try :: "fs \<Rightarrow> src_file \<Rightarrow> io_error + (fs \<times> nat \<times> event list)" where
  "comp_process_try fs f =
     (case read_file fs (src_path f) of
        Inl e \<Rightarrow> Inl e
      | Inr content \<Rightarrow>
          (let (fixed_content, count) = fix_input_in_content content (src_parent_dir f) (src_stem f)
           in if count > 0 then
                (case write_file fs (src_path f) fixed_content of
                   Inl e \<Rightarrow> Inl e
                 | Inr fs' \<Rightarrow> Inr (fs', count, [Fixed (src_path f) count]))
              else Inr (fs, count, [])))"

definition comp_process_file :: "fs \<Rightarrow> src_file \<Rightarrow> fs \<times> nat \<times> event list" where
  "comp_process_file fs f =
     (case comp_process_try fs f of
        Inr r \<Rightarrow> r
      | Inl e \<Rightarrow> (fs, 0, [ErrorProcessing (src_path f) e]))"


text \<open>final_comprehensive_fix.py, \<open>process_file\<close> and \<open>scan_and_fix_directory\<close>.\<close>

definition final_process_try :: "fs \<Rightarrow> string \<Rightarrow> io_error + (fs \<times> nat \<times> event list)" where
  "final_process_try fs path =
     (case read_file fs path of
        Inl e \<Rightarrow> Inl e
      | Inr content \<Rightarrow>
          (let (fixed_content, fixed_count) = final_fix_content content
           in if fixed_count > 0 then
                (case write_file fs path fixed_content of
                   Inl e \<Rightarrow> Inl e
                 | Inr fs' \<Rightarrow> Inr (fs', fixed_count, [Fixed path fixed_count]))
              else Inr (fs, fixed_count, [])))"

definition final_process_file :: "fs \<Rightarrow> string \<Rightarrow> fs \<times> nat \<times> event list" where
  "final_process_file fs path =
     (case final_process_try fs path of
        Inr r \<Rightarrow> r
      | Inl e \<Rightarrow> (fs, 0, [ErrorProcessing path e]))"


text \<open>
  batch_fix_inputs.py, \<open>fix_file\<close>: no \<open>try\<close>; an exception leaves the function. The
  main loop skips a path that does not exist and has no \<open>try\<close> either, so an exception
  ends the run: the result keeps the file system and the output reached, and the
  exception or the total.
\<close>

definition batch_fix_file :: "fs \<Rightarrow> string \<Rightarrow> bool \<Rightarrow> io_error + (fs \<times> nat \<times> event list)" where
  "batch_fix_file fs path dry_run =
     (case read_file fs path of
        Inl e \<Rightarrow> Inl e
      | Inr content \<Rightarrow>
          (let (new_content, fixed_count, added) = batch_fix_content content;
               printed = map (\<lambda>(n, id_name). LineAdded n id_name) added
           in if fixed_count > 0 \<and> \<not> dry_run then
                (case write_file fs path new_content of
                   Inl e \<Rightarrow> Inl e
                 | Inr fs' \<Rightarrow> Inr (fs', fixed_count, printed))
              else Inr (fs, fixed_count, printed)))"


section \<open>The console-call rewriter (fix_console.py)\<close>

definition sq :: string where
  "sq = [CHR 0x27]"

definition logger_import_line :: string where
  "logger_import_line = ''import { logger } from '' @ sq @ ''$lib/utils/logger'' @ sq @ '';''"

definition has_logger_import :: "string \<Rightarrow> bool" where
  "has_logger_import content =
     (py_in (''from '' @ sq @ ''$lib/utils/logger'' @ sq) content \<or>
      py_in (''from '' @ dq @ ''$lib/utils/logger'' @ dq) content)"

definition is_import_line :: "string \<Rightarrow> bool" where
  "is_import_line line = prefix ''import '' (strip line)"

text \<open>The loop over \<open>enumerate(lines)\<close>; \<open>last_import_idx\<close> starts at \<open>-1\<close>.\<close>

fun find_last_import :: "string list \<Rightarrow> nat \<Rightarrow> int \<Rightarrow> int" where
  "find_last_import [] i last_import_idx = last_import_idx"
| "find_last_import (line # lines) i last_import_idx =
     find_last_import lines (Suc i) (if is_import_line line then int i else last_import_idx)"

text \<open>\<open>lines.insert(k, x)\<close>.\<close>

definition list_insert :: "nat \<Rightarrow> 'a \<Rightarrow> 'a list \<Rightarrow> 'a list" where
  "list_insert k x xs = take k xs @ [x] @ drop k xs"

definition add_logger_import :: "string \<Rightarrow> string" where
  "add_logger_import content =
     (let lines = split_nl content;
          last_import_idx = find_last_import lines 0 (- 1)
      in if last_import_idx \<ge> 0
         then join_nl (list_insert (nat (last_import_idx + 1)) logger_import_line lines)
         else join_nl (list_insert 0 logger_import_line lines))"

definition replace_console_statements :: "string \<Rightarrow> string" where
  "replace_console_statements content =
     replace_all ''console.log('' ''logger.info(''
       (replace_all ''console.info('' ''logger.info(''
         (replace_all ''console.warn('' ''logger.warn(''
           (replace_all ''console.error('' ''logger.error(''
             (replace_all ''console.debug('' ''logger.debug('' content))))"

definition has_console_call :: "string \<Rightarrow> bool" where
  "has_console_call content =
     (py_in ''console.debug('' content \<or> py_in ''console.error('' content \<or>
      py_in ''console.warn('' content \<or> py_in ''console.info('' content \<or>
      py_in ''console.log('' content)"

text \<open>
  What \<open>fix_file\<close> writes back for the content it read; \<open>None\<close> when it returns \<open>False\<close>
  before writing, because the content has no console call.
\<close>

definition console_fix_content :: "string \<Rightarrow> string option" where
  "console_fix_content content =
     (if \<not> has_console_call content then None
      else Some (replace_console_statements
                   (if \<not> has_logger_import content then add_logger_import content
                    else content)))"

definition console_fix_file :: "fs \<Rightarrow> string \<Rightarrow> fs \<times> bool \<times> event list" where
  "console_fix_file fs path =
     (case read_file fs path of
        Inl e \<Rightarrow> (fs, False, [ErrorProcessing path e])
      | Inr content \<Rightarrow>
          (case console_fix_content content of
             None \<Rightarrow> (fs, False, [])
           | Some new_content \<Rightarrow>
               (case write_file fs path new_content of
                  Inl e \<Rightarrow> (fs, False, [ErrorProcessing path e])
                | Inr fs' \<Rightarrow> (fs', True, []))))"



section \<open>Lines and tag occurrences\<close>










definition count_nl :: "string \<Rightarrow> nat" where
  "count_nl s = length (filter (\<lambda>c. c = nl) s)"




section \<open>The shape of an identifier\<close>

text \<open>
  An identifier is well shaped when it has no upper-case letter, no two hyphens in a row
  and no hyphen at either end.
\<close>

definition well_shaped :: "string \<Rightarrow> bool" where
  "well_shaped s =
     ((\<forall>c \<in> set s. \<not> is_upper c) \<and> \<not> sublist ''--'' s \<and>
      (s \<noteq> [] \<longrightarrow> hd s \<noteq> CHR ''-'' \<and> last s \<noteq> CHR ''-''))"

section \<open>Example inputs\<close>





definition compliant_fs :: fs where
  \<open>compliant_fs = (\<lambda>p. if p = ''a.svelte''
     then Some (File ''<input id="q" name="q" type="text">'' True) else None)\<close>

definition compliant_file :: src_file where
  "compliant_file = \<lparr>src_path = ''a.svelte'', src_parent_dir = ''routes'', src_stem = ''a''\<rparr>"








section \<open>Substring tests\<close>







section \<open>Reading, writing and the per-file handlers\<close>

lemma comp_no_write:
  "read_file fs (src_path f) = Inr body \<Longrightarrow>
   snd (fix_input_in_content body (src_parent_dir f) (src_stem f)) = 0 \<Longrightarrow>
   comp_process_file fs f = (fs, 0, [])"
  by (cases "fix_input_in_content body (src_parent_dir f) (src_stem f)")
    (simp add: comp_process_file_def comp_process_try_def)

lemma final_no_write:
  "read_file fs path = Inr body \<Longrightarrow> snd (final_fix_content body) = 0 \<Longrightarrow>
   final_process_file fs path = (fs, 0, [])"
  by (cases "final_fix_content body") (simp add: final_process_file_def final_process_try_def)

lemma batch_no_write:
  "read_file fs path = Inr body \<Longrightarrow> fst (snd (batch_fix_content body)) = 0 \<Longrightarrow>
   \<exists>printed. batch_fix_file fs path dry_run = Inr (fs, 0, printed)"
  by (cases "batch_fix_content body") (simp add: batch_fix_file_def)

lemma comp_write_only_fixed:
  "fst (comp_process_file fs f) \<noteq> fs \<Longrightarrow> 0 < fst (snd (comp_process_file fs f))"
  by (auto simp: comp_process_file_def comp_process_try_def
      split: sum.splits prod.splits if_splits)

lemma final_write_only_fixed:
  "fst (final_process_file fs path) \<noteq> fs \<Longrightarrow> 0 < fst (snd (final_process_file fs path))"
  by (auto simp: final_process_file_def final_process_try_def
      split: sum.splits prod.splits if_splits)

lemma batch_write_only_fixed:
  "batch_fix_file fs path dry_run = Inr (fs', n, printed) \<Longrightarrow> fs' \<noteq> fs \<Longrightarrow> 0 < n"
  by (auto simp: batch_fix_file_def Let_def split: sum.splits prod.splits if_splits)







section \<open>Where the regular expressions match\<close>



















section \<open>The patch loop and the lines it leaves alone\<close>
















lemma fst_reassemble_fix [simp]: "fst (reassemble_fix lines i) = i + 1"
  by (simp add: reassemble_fix_def split: prod.splits)














lemma count_nl_Nil [simp]: "count_nl [] = 0"
  by (simp add: count_nl_def)
























section \<open>Substitution, line by line\<close>




































section \<open>Hidden tags and the identifiers of batch_fix_inputs.py\<close>

lemma hidden_tag_left_alone:
  "py_in ''hidden'' t \<Longrightarrow> comp_fix_tag t pd fn ln = None \<and> final_fix_input_tag t = t"
  by (simp add: comp_fix_tag_def final_fix_input_tag_def)

lemma set_sub_runs: "set (sub_runs p s) \<subseteq> set s \<union> {CHR ''-''}"
  by (induction p s rule: sub_runs.induct) auto

lemma hd_sub_runs_hyphen:
  "sub_runs is_hyphen s \<noteq> [] \<Longrightarrow> hd (sub_runs is_hyphen s) = hd s"
  by (induction is_hyphen s rule: sub_runs.induct) (auto simp: is_hyphen_def)

lemma sub_runs_Nil [simp]: "sub_runs p s = [] \<longleftrightarrow> s = []"
  by (induction p s rule: sub_runs.induct) auto

lemma no_double_hyphen: "\<not> sublist ''--'' (sub_runs is_hyphen s)"
proof (induction is_hyphen s rule: sub_runs.induct)
  case 1
  then show ?case by simp
next
  case (2 c)
  then show ?case by (simp add: sublist_Cons_right)
next
  case (3 c d cs)
  have h: "hd (sub_runs is_hyphen (d # cs)) = d"
    using hd_sub_runs_hyphen [of "d # cs"] by simp
  obtain x xs where r: "sub_runs is_hyphen (d # cs) = x # xs"
    by (cases "sub_runs is_hyphen (d # cs)") auto
  with h have x: "x = d" by simp
  show ?case
  proof (cases "is_hyphen c")
    case True
    with 3 r x show ?thesis
      by (auto simp: sublist_Cons_right is_hyphen_def)
  next
    case False
    with 3 r x show ?thesis
      by (auto simp: sublist_Cons_right is_hyphen_def)
  qed
qed

lemma strip_with_sublist: "sublist (strip_with p s) s"
proof -
  have "suffix (dropWhile p s) s" by (rule suffix_dropWhile)
  moreover have "prefix (rev (dropWhile p (rev (dropWhile p s)))) (dropWhile p s)"
    using suffix_dropWhile [of p "rev (dropWhile p s)"]
    by (metis rev_rev_ident suffix_to_prefix)
  ultimately show ?thesis
    unfolding strip_with_def
    by (meson prefix_imp_sublist sublist_order.order_trans suffix_imp_sublist)
qed

lemma strip_with_ends:
  assumes "strip_with p s \<noteq> []"
  shows "\<not> p (hd (strip_with p s)) \<and> \<not> p (last (strip_with p s))"
proof -
  let ?d = "dropWhile p s"
  let ?e = "dropWhile p (rev ?d)"
  from assms have e: "?e \<noteq> []" by (simp add: strip_with_def)
  have d: "?d \<noteq> []"
  proof
    assume "?d = []"
    with e show False by simp
  qed
  have l: "last (strip_with p s) = hd ?e"
    using e by (simp add: strip_with_def last_rev)
  have "\<not> p (hd ?e)" using e hd_dropWhile by blast
  moreover have "hd (strip_with p s) = last ?e"
    using e by (simp add: strip_with_def hd_rev)
  moreover have "last ?e = last (rev ?d)"
  proof -
    obtain zs where z: "rev ?d = zs @ ?e"
      using suffix_dropWhile [of p "rev ?d"] by (auto simp: suffix_def)
    have "last (zs @ ?e) = last ?e" using e by simp
    then show ?thesis using z by simp
  qed
  moreover have "last (rev ?d) = hd ?d" using d by (simp add: last_rev)
  moreover have "\<not> p (hd ?d)" using d hd_dropWhile by blast
  ultimately show ?thesis using l by simp
qed

lemma lower_or_digit_not_upper: "is_lower_or_digit c \<or> is_hyphen c \<Longrightarrow> \<not> is_upper c"
  by (auto simp: is_lower_or_digit_def is_ascii_lower_def is_digit_def is_hyphen_def
      is_upper_def code_point_def Let_def)

lemma batch_identifier_shape: "well_shaped (fst (generate_id_from_context input_tag n ctx))"
proof -
  obtain raw where
    g: "fst (generate_id_from_context input_tag n ctx) =
      strip_hyphens (sub_runs is_hyphen
        (filter (\<lambda>c. is_lower_or_digit c \<or> is_hyphen c) (lower raw)))"
    by (simp add: generate_id_from_context_def Let_def)
  let ?f = "filter (\<lambda>c. is_lower_or_digit c \<or> is_hyphen c) (lower raw)"
  let ?r = "sub_runs is_hyphen ?f"
  let ?s = "strip_hyphens ?r"
  have sub: "sublist ?s ?r" unfolding strip_hyphens_def by (rule strip_with_sublist)
  have "set ?s \<subseteq> set ?r" using sub by (rule set_mono_sublist)
  also have "\<dots> \<subseteq> set ?f \<union> {CHR ''-''}" by (rule set_sub_runs)
  finally have "\<forall>c \<in> set ?s. is_lower_or_digit c \<or> is_hyphen c"
    by (auto simp: is_hyphen_def)
  then have a: "\<forall>c \<in> set ?s. \<not> is_upper c" using lower_or_digit_not_upper by blast
  have b: "\<not> sublist ''--'' ?s"
    using sub no_double_hyphen [of ?f] sublist_order.order_trans by blast
  have c: "?s \<noteq> [] \<longrightarrow> hd ?s \<noteq> CHR ''-'' \<and> last ?s \<noteq> CHR ''-''"
    using strip_with_ends [of is_hyphen ?r]
    by (auto simp: strip_hyphens_def is_hyphen_def)
  show ?thesis unfolding g well_shaped_def using a b c by blast
qed

text \<open>
  A second run of comprehensive_fix.py changes the content again when the identifier
  spliced in by the first run holds a \<open>>\<close>: the tag then ends earlier than before, and the
  lines behind it are read as a new tag.
\<close>

lemma comp_second_run_after_gt:
  \<open>fix_input_in_content
     (join_nl [''<input'', ''data-x=1'', ''<input class="c"'', ''type="a>b">'']) ''users'' ''page''
   = (join_nl [''<input'', ''id="a>b" name="a>b" data-x=1'', ''<input class="c"'',
               ''type="a>b">''], 1)
   \<and> fix_input_in_content
     (join_nl [''<input'', ''id="a>b" name="a>b" data-x=1'', ''<input class="c"'',
               ''type="a>b">'']) ''users'' ''page''
   = (join_nl [''<input'', ''id="a>b" name="a>b" data-x=1'',
               ''<input id="a>b" name="a>b" class="c"'', ''type="a>b">''], 1)\<close>
  by code_simp

section \<open>Claims\<close>






text \<open>
  C8. A file in which no tag was changed is not rewritten: when the count for the content
  read is zero, each of the three scripts returns the file system it was given, and a
  file system that differs from the one given comes with a positive count.
\<close>

theorem no_rewrite_when_nothing_fixed:
  "(read_file fs (src_path f) = Inr body \<and>
      snd (fix_input_in_content body (src_parent_dir f) (src_stem f)) = 0
      \<longrightarrow> comp_process_file fs f = (fs, 0, []))
   \<and> (read_file fs path = Inr body \<and> snd (final_fix_content body) = 0
      \<longrightarrow> final_process_file fs path = (fs, 0, []))
   \<and> (read_file fs path = Inr body \<and> fst (snd (batch_fix_content body)) = 0
      \<longrightarrow> (\<exists>printed. batch_fix_file fs path dry_run = Inr (fs, 0, printed)))
   \<and> (fst (comp_process_file fs f) \<noteq> fs \<longrightarrow> 0 < fst (snd (comp_process_file fs f)))
   \<and> (fst (final_process_file fs path) \<noteq> fs
      \<longrightarrow> 0 < fst (snd (final_process_file fs path)))
   \<and> (batch_fix_file fs path dry_run = Inr (fs', n, printed) \<and> fs' \<noteq> fs \<longrightarrow> 0 < n)"
  using comp_no_write [of fs f body] final_no_write [of fs path body]
    batch_no_write [of fs path body dry_run] comp_write_only_fixed [of fs f]
    final_write_only_fixed [of fs path] batch_write_only_fixed [of fs path dry_run fs' n printed]
  by blast

theorem no_rewrite_when_nothing_fixed_witness:
  "comp_process_file compliant_fs compliant_file = (compliant_fs, 0, [])
   \<and> final_process_file compliant_fs ''a.svelte'' = (compliant_fs, 0, [])
   \<and> (\<exists>printed. batch_fix_file compliant_fs ''a.svelte'' False = Inr (compliant_fs, 0, printed))"
proof -
  have r: \<open>read_file compliant_fs ''a.svelte'' = Inr ''<input id="q" name="q" type="text">''\<close>
    by (simp add: read_file_def compliant_fs_def)
  have c: \<open>snd (fix_input_in_content ''<input id="q" name="q" type="text">'' ''routes'' ''a'') = 0\<close>
    by code_simp
  have d: \<open>snd (final_fix_content ''<input id="q" name="q" type="text">'') = 0\<close>
    by code_simp
  have e: \<open>fst (snd (batch_fix_content ''<input id="q" name="q" type="text">'')) = 0\<close>
    by code_simp
  show ?thesis
    using r c d e
      no_rewrite_when_nothing_fixed [where fs = compliant_fs and f = compliant_file
        and body = \<open>''<input id="q" name="q" type="text">''\<close> and path = "''a.svelte''"
        and dry_run = False]
    by (simp add: compliant_file_def)
qed





text \<open>
  C1 fails in batch_fix_inputs.py. Its loop copies only the first line of a tag that it
  does not patch and skips the tag's other lines, so the first run, which patches the
  input on line 4, writes the compliant tag of lines 1 and 2 back without its second
  line. The second run then reads lines 1 and 2 of that output as a tag without \<open>id\<close> and
  \<open>name\<close> and patches it: one more modification, and a different text.
\<close>

theorem batch_second_run_patches_again:
  \<open>batch_fix_content
     (join_nl [''<input'', ''  id="a" name="a" />'', ''</div>'', ''<input type="text" />''])
   = (join_nl [''<input'', ''</div>'',
               ''<input id="text-input-4" name="text-input-4" type="text" />''],
      1, [(4, ''text-input-4'')])
   \<and> batch_fix_content
     (join_nl [''<input'', ''</div>'',
               ''<input id="text-input-4" name="text-input-4" type="text" />''])
   = (join_nl [''<input'', ''id="text-input-1" name="text-input-1" </div>'',
               ''<input id="text-input-4" name="text-input-4" type="text" />''],
      1, [(1, ''text-input-1'')])\<close>
  by code_simp

text \<open>
  C2 fails in batch_fix_inputs.py, which looks for \<open>hidden\<close> in the first line of the tag
  only, before it collects the other lines: a tag whose second line holds
  \<open>type="hidden"\<close> gets \<open>id\<close> and \<open>name\<close>. comprehensive_fix.py and
  final_comprehensive_fix.py test the whole tag (\<open>hidden_tag_left_alone\<close>), and the first
  leaves the same content alone.
\<close>

theorem batch_patches_hidden_tag:
  \<open>batch_fix_content (join_nl [''<input'', ''  type="hidden" value="x">''])
   = (join_nl [''<input'',
               ''  id="hidden-input-1" name="hidden-input-1" type="hidden" value="x">''],
      1, [(1, ''hidden-input-1'')])
   \<and> py_in ''hidden'' (join_nl [''<input'', ''  type="hidden" value="x">''])
   \<and> fix_input_in_content (join_nl [''<input'', ''  type="hidden" value="x">''])
       ''users'' ''+page''
     = (join_nl [''<input'', ''  type="hidden" value="x">''], 0)\<close>
  by code_simp

text \<open>
  C9 fails in comprehensive_fix.py, \<open>generate_smart_id\<close>: it strips hyphens from the
  bound expression and from the placeholder, but not from the joined identifier, and it
  cuts the identifier to 50 characters last. Here character 50 is a hyphen, and the
  identifier returned ends with it. batch_fix_inputs.py strips the final identifier: its
  identifier is well shaped for every tag (\<open>batch_identifier_shape\<close>), and for the same
  tag it is the one shown.
\<close>

theorem smart_id_trailing_hyphen:
  \<open>generate_smart_id
     ''<input type="text" bind:value={subscriptionCheckoutForm.billingAddressState.value}>''
     ''users'' ''+page'' 7
   = (''page-subscriptioncheckoutform-billingaddressstate-'',
      ''page-subscriptioncheckoutform-billingaddressstate-'')
   \<and> last (fst (generate_smart_id
     ''<input type="text" bind:value={subscriptionCheckoutForm.billingAddressState.value}>''
     ''users'' ''+page'' 7)) = CHR ''-''
   \<and> generate_id_from_context
     ''<input type="text" bind:value={subscriptionCheckoutForm.billingAddressState.value}>''
     7 []
   = (''input-subscriptioncheckoutform-billingaddressstate-value'',
      ''input-subscriptioncheckoutform-billingaddressstate-value'')\<close>
  by code_simp












end
